theory Spec2Isabelle
  imports Main "HOL-Library.Word" "HOL-Library.Sublist"
begin

unbundle bit_operations_syntax

section \<open>Memory and C strings\<close>

text \<open>
  A pointer into memory is modelled by the list of bytes that starts at the pointed
  address. Sizes that the C++ keeps in \<open>int\<close> are kept in \<open>int\<close> here; the embedding
  describes the executions of the C++ that are free of signed overflow and of reads or
  writes past the end of an object (both undefined in C++), so lists are as long as the
  object they stand for and sums of sizes are exact.
\<close>

type_synonym byte = "8 word"

text \<open>\<open>strlen\<close>: the number of bytes before the first zero byte.\<close>

definition strlen :: "byte list \<Rightarrow> nat" where
  "strlen s = length (takeWhile (\<lambda>c. c \<noteq> 0) s)"

text \<open>\<open>strnlen\<close>: as \<open>strlen\<close>, looking at no more than \<open>maxlen\<close> bytes. The C++ passes an
  \<open>int\<close> where \<open>size_t\<close> is expected; a negative bound converts to a bound larger than any
  object, which is every byte of the list.\<close>

definition strnlen :: "byte list \<Rightarrow> int \<Rightarrow> nat" where
  "strnlen s maxlen =
     (if maxlen < 0 then length (takeWhile (\<lambda>c. c \<noteq> 0) s)
      else length (takeWhile (\<lambda>c. c \<noteq> 0) (take (nat maxlen) s)))"

text \<open>\<open>memcpy (dst + off, src, n)\<close>: the destination with \<open>n\<close> bytes replaced.\<close>

definition memcpy :: "byte list \<Rightarrow> nat \<Rightarrow> byte list \<Rightarrow> nat \<Rightarrow> byte list" where
  "memcpy dst off src n = take off dst @ take n src @ drop (off + n) dst"

text \<open>\<open>memcmp (a, b, n)\<close> is used by the C++ only as a truth value: non-zero when the
  first \<open>n\<close> bytes differ.\<close>

definition memcmp :: "byte list \<Rightarrow> byte list \<Rightarrow> nat \<Rightarrow> bool" where
  "memcmp a b n = (take n a \<noteq> take n b)"

text \<open>The memory of a zero-terminated string (\<open>std::string::c_str\<close>,
  \<open>std::type_info::name\<close>).\<close>

definition c_str :: "byte list \<Rightarrow> byte list" where
  "c_str s = s @ [0]"

text \<open>\<open>std::string (const char *)\<close>: the bytes before the first zero byte.\<close>

definition string_of :: "byte list \<Rightarrow> byte list" where
  "string_of p = takeWhile (\<lambda>c. c \<noteq> 0) p"

section \<open>Buffer API\<close>

text \<open>
  Modelled from the spec: the enumeration \<open>TscppError\<close> of \<open>tscpp.h\<close>, the header
  that \<open>tscpp.cpp\<close> includes and that is not among the sources. The specification
  asks for negative sentinel codes, distinct from every byte count; the values are
  those of the enumeration of \<open>buffer.h\<close> (\<open>BufferTooSmall = -1\<close>, \<open>WrongType = -2\<close>,
  \<open>UnknownType = -3\<close>), under the names that \<open>tscpp.cpp\<close> uses for the second and
  the third, \<open>TypeMismatch\<close> and \<open>TypeNotFound\<close>.
\<close>

definition BufferTooSmall :: int where
  "BufferTooSmall = -1"

definition TypeMismatch :: int where
  "TypeMismatch = -2"

definition TypeNotFound :: int where
  "TypeNotFound = -3"

text \<open>\<open>serializeImpl\<close> returns the \<open>int\<close> result and the buffer as it leaves it.\<close>

definition serializeImpl ::
  "byte list \<Rightarrow> int \<Rightarrow> byte list \<Rightarrow> byte list \<Rightarrow> int \<Rightarrow> int \<times> byte list" where
  "serializeImpl buffer bufSize name data sz =
     (let nameSize = int (strlen name);
          serializedSize = nameSize + 1 + sz
      in if serializedSize > bufSize then (BufferTooSmall, buffer)
         else
           let buf1 = memcpy buffer 0 name (nat (nameSize + 1));
               buf2 = memcpy buf1 (nat (nameSize + 1)) data (nat sz)
           in (serializedSize, buf2))"

text \<open>\<open>unserializeImpl\<close> returns the \<open>int\<close> result and the destination \<open>data\<close> as it
  leaves it.\<close>

definition unserializeImpl ::
  "byte list \<Rightarrow> byte list \<Rightarrow> int \<Rightarrow> byte list \<Rightarrow> int \<Rightarrow> int \<times> byte list" where
  "unserializeImpl name data sz buffer bufSize =
     (let nameSize = int (strlen name);
          serializedSize = nameSize + 1 + sz
      in if serializedSize > bufSize then (BufferTooSmall, data)
         else if memcmp buffer name (nat (nameSize + 1)) then (TypeMismatch, data)
         else (serializedSize,
               memcpy data 0 (drop (nat (nameSize + 1)) buffer) (nat sz)))"

text \<open>
  A trivially copyable type \<open>T\<close> enters the library through \<open>typeid (T).name ()\<close> and
  \<open>sizeof (T)\<close>, and a value of the type through its \<open>sizeof (T)\<close> bytes.
\<close>

record ctype =
  type_name :: "byte list"
  sizeof :: nat

text \<open>A name is a C string: it holds no zero byte.\<close>

definition wf_type :: "ctype \<Rightarrow> bool" where
  "wf_type T = (0 \<notin> set (type_name T))"

definition serialize :: "ctype \<Rightarrow> byte list \<Rightarrow> int \<Rightarrow> byte list \<Rightarrow> int \<times> byte list" where
  "serialize T buffer bufSize t =
     serializeImpl buffer bufSize (c_str (type_name T)) t (int (sizeof T))"

definition unserialize :: "ctype \<Rightarrow> byte list \<Rightarrow> byte list \<Rightarrow> int \<Rightarrow> int \<times> byte list" where
  "unserialize T t buffer bufSize =
     unserializeImpl (c_str (type_name T)) t (int (sizeof T)) buffer bufSize"

text \<open>
  The type pool: a \<open>std::map\<close> from names to \<open>DeserializerImpl\<close> entries, the
  payload size and the callback \<open>usc\<close>, as \<open>buffer.h\<close> declares it and as both
  overloads of \<open>TypePool::unserializeUnknownImpl\<close> in \<open>tscpp.cpp\<close> use it
  (\<open>it->second.size\<close>, \<open>it->second.usc\<close>). A callback runs user code on the bytes
  behind the pointer it is given; its effect is a change of a user state \<open>'u\<close>.
\<close>

record 'u DeserializerImpl =
  sizeD :: int
  usc :: "byte list \<Rightarrow> 'u \<Rightarrow> 'u"

type_synonym 'u TypePool = "byte list \<rightharpoonup> 'u DeserializerImpl"

text \<open>\<open>registerType\<close>: the stored callback copies \<open>sizeof (T)\<close> bytes into a fresh \<open>T\<close>
  and hands it to the user's callback.\<close>

definition registerType ::
  "ctype \<Rightarrow> (byte list \<Rightarrow> 'u \<Rightarrow> 'u) \<Rightarrow> 'u TypePool \<Rightarrow> 'u TypePool" where
  "registerType T callback types =
     types(type_name T \<mapsto>
       \<lparr>sizeD = int (sizeof T), usc = (\<lambda>buffer. callback (take (sizeof T) buffer))\<rparr>)"

definition TypePool_unserializeUnknownImpl ::
  "'u TypePool \<Rightarrow> byte list \<Rightarrow> byte list \<Rightarrow> int \<Rightarrow> 'u \<Rightarrow> int \<times> 'u" where
  "TypePool_unserializeUnknownImpl types name buffer bufSize u =
     (case types (string_of name) of
        None \<Rightarrow> (TypeNotFound, u)
      | Some it \<Rightarrow>
          if sizeD it > bufSize then (BufferTooSmall, u)
          else (sizeD it, usc it buffer u))"

definition unserializeUnknown :: "'u TypePool \<Rightarrow> byte list \<Rightarrow> int \<Rightarrow> 'u \<Rightarrow> int \<times> 'u" where
  "unserializeUnknown tp buffer bufSize u =
     (let nameSize = int (strnlen buffer bufSize)
      in if nameSize \<ge> bufSize then (BufferTooSmall, u)
         else
           let name = buffer;
               buf = drop (nat (nameSize + 1)) buffer;
               bufSize' = bufSize - (nameSize + 1);
               (r, u') = TypePool_unserializeUnknownImpl tp name buf bufSize' u
           in (r + nameSize + 1, u'))"

definition peekTypeName :: "byte list \<Rightarrow> int \<Rightarrow> byte list" where
  "peekTypeName buffer bufSize =
     (let nameSize = int (strnlen buffer bufSize)
      in if nameSize \<ge> bufSize then [] else string_of buffer)"

section \<open>Stream API\<close>

text \<open>
  An output stream is the sequence of bytes written so far; the sink never faults.
  \<open>os.write (s, n)\<close> appends \<open>n\<close> bytes.
\<close>

type_synonym ostream = "byte list"

definition ostream_write :: "ostream \<Rightarrow> byte list \<Rightarrow> int \<Rightarrow> ostream" where
  "ostream_write os s n = os @ take (nat n) s"

definition OutputArchive_serializeImpl :: "ostream \<Rightarrow> byte list \<Rightarrow> byte list \<Rightarrow> int \<Rightarrow> ostream" where
  "OutputArchive_serializeImpl os name data sz =
     (let nameSize = int (strlen name);
          os1 = ostream_write os name (nameSize + 1);
          os2 = ostream_write os1 data sz
      in os2)"

text \<open>\<open>operator<<\<close> on an \<open>OutputArchive\<close>.\<close>

definition OutputArchive_shl :: "ctype \<Rightarrow> ostream \<Rightarrow> byte list \<Rightarrow> ostream" where
  "OutputArchive_shl T os t =
     OutputArchive_serializeImpl os (c_str (type_name T)) t (int (sizeof T))"

text \<open>
  An input stream is the sequence of bytes of its source, the read position in it, and
  the state bits \<open>eofbit\<close> and \<open>failbit\<close> (the source never faults, so \<open>badbit\<close> stays
  clear, and no exception mask is set). The operations follow the unformatted input
  functions of the C++11 standard library: each one first builds a sentry, which sets
  \<open>failbit\<close> and lets the operation do nothing when the stream is not good.
\<close>

record istream =
  content :: "byte list"
  gpos :: nat
  eofbit :: bool
  failbit :: bool

definition good :: "istream \<Rightarrow> bool" where
  "good is = (\<not> eofbit is \<and> \<not> failbit is)"

definition sentry :: "istream \<Rightarrow> bool \<times> istream" where
  "sentry is = (if good is then (True, is) else (False, is\<lparr>failbit := True\<rparr>))"

text \<open>\<open>tellg\<close>: the position, or \<open>-1\<close> on a failed stream.\<close>

definition tellg :: "istream \<Rightarrow> int \<times> istream" where
  "tellg is =
     (let (ok, is1) = sentry is
      in if ok \<and> \<not> failbit is1 then (int (gpos is1), is1) else (- 1, is1))"

text \<open>\<open>seekg\<close>: clears \<open>eofbit\<close> first; a position outside the source fails.\<close>

definition seekg :: "istream \<Rightarrow> int \<Rightarrow> istream" where
  "seekg is pos =
     (let (ok, is1) = sentry (is\<lparr>eofbit := False\<rparr>)
      in if ok \<and> \<not> failbit is1 then
           (if 0 \<le> pos \<and> pos \<le> int (length (content is1)) then is1\<lparr>gpos := nat pos\<rparr>
            else is1\<lparr>failbit := True\<rparr>)
         else is1)"

text \<open>\<open>is.read (dst, n)\<close>: stores the bytes it gets at the start of \<open>dst\<close>; fewer than \<open>n\<close>
  sets \<open>eofbit\<close> and \<open>failbit\<close>. It returns the destination and the stream.\<close>

definition istream_read :: "istream \<Rightarrow> byte list \<Rightarrow> int \<Rightarrow> byte list \<times> istream" where
  "istream_read is dst n =
     (let (ok, is1) = sentry is
      in if ok then
           let got = take (nat n) (drop (gpos is1) (content is1));
               is2 = is1\<lparr>gpos := gpos is1 + length got\<rparr>;
               dst' = memcpy dst 0 got (length got)
           in if int (length got) \<noteq> n then (dst', is2\<lparr>eofbit := True, failbit := True\<rparr>)
              else (dst', is2)
         else (dst, is1))"

text \<open>\<open>std::getline (is, str, '\0')\<close>: extracts up to the delimiter, which it consumes and
  does not store; at the end of the source it sets \<open>eofbit\<close>, and \<open>failbit\<close> too when it
  extracted nothing. When the sentry fails, \<open>str\<close> is left as it was.\<close>

definition getline :: "istream \<Rightarrow> byte list \<Rightarrow> byte list \<times> istream" where
  "getline is str =
     (let (ok, is1) = sentry is
      in if ok then
           let rest = drop (gpos is1) (content is1);
               line = takeWhile (\<lambda>c. c \<noteq> 0) rest
           in if length line < length rest
              then (line, is1\<lparr>gpos := gpos is1 + length line + 1\<rparr>)
              else (line, is1\<lparr>gpos := gpos is1 + length line,
                              eofbit := True, failbit := (line = [])\<rparr>)
         else (str, is1))"

text \<open>\<open>TscppException (what, n)\<close>; the one-argument constructor leaves \<open>n\<close> empty.\<close>

datatype TscppException = TscppException string "byte list"

definition InputArchive_wrongType :: "istream \<Rightarrow> int \<Rightarrow> TscppException \<times> istream" where
  "InputArchive_wrongType is pos =
     (let is1 = seekg is pos;
          (name, is2) = getline is1 [];
          is3 = seekg is2 pos
      in (TscppException ''wrong type'' name, is3))"

text \<open>
  \<open>InputArchive::unserializeImpl\<close> returns what it throws (\<open>Inl\<close>) or that it returned
  (\<open>Inr\<close>), the destination \<open>data\<close> and the stream as it leaves them. The array
  \<open>new char[nameSize+1]\<close> starts with indeterminate bytes: they are the argument
  \<open>scratch\<close>.
\<close>

definition InputArchive_unserializeImpl ::
  "byte list \<Rightarrow> istream \<Rightarrow> byte list \<Rightarrow> byte list \<Rightarrow> int \<Rightarrow>
     (TscppException + unit) \<times> byte list \<times> istream" where
  "InputArchive_unserializeImpl scratch is name data sz =
     (let (pos, is1) = tellg is;
          nameSize = int (strlen name);
          (unserializedName, is2) = istream_read is1 scratch (nameSize + 1)
      in if eofbit is2 then (Inl (TscppException ''eof'' []), data, is2)
         else if memcmp unserializedName name (nat (nameSize + 1)) then
           (let (ex, is3) = InputArchive_wrongType is2 pos in (Inl ex, data, is3))
         else
           let (data', is3) = istream_read is2 data sz
           in if eofbit is3 then (Inl (TscppException ''eof'' []), data', is3)
              else (Inr (), data', is3))"

text \<open>\<open>operator>>\<close> on an \<open>InputArchive\<close>.\<close>

definition InputArchive_shr ::
  "ctype \<Rightarrow> byte list \<Rightarrow> istream \<Rightarrow> byte list \<Rightarrow>
     (TscppException + unit) \<times> byte list \<times> istream" where
  "InputArchive_shr T scratch is t =
     InputArchive_unserializeImpl scratch is (c_str (type_name T)) t (int (sizeof T))"

text \<open>The stream overload of \<open>TypePool::unserializeUnknownImpl\<close>; it returns what it throws
  or that it returned, the stream and the user state.\<close>

definition TypePool_unserializeUnknownImpl_stream ::
  "'u TypePool \<Rightarrow> byte list \<Rightarrow> byte list \<Rightarrow> istream \<Rightarrow> int \<Rightarrow> 'u \<Rightarrow>
     (TscppException + unit) \<times> istream \<times> 'u" where
  "TypePool_unserializeUnknownImpl_stream types scratch name is pos u =
     (case types name of
        None \<Rightarrow> (let is1 = seekg is pos in (Inl (TscppException ''unknown type'' name), is1, u))
      | Some it \<Rightarrow>
          let (unserialized, is1) = istream_read is scratch (sizeD it)
          in if eofbit is1 then (Inl (TscppException ''eof'' []), is1, u)
             else (Inr (), is1, usc it unserialized u))"

definition UnknownInputArchive_unserialize ::
  "'u TypePool \<Rightarrow> byte list \<Rightarrow> istream \<Rightarrow> 'u \<Rightarrow> (TscppException + unit) \<times> istream \<times> 'u" where
  "UnknownInputArchive_unserialize tp scratch is u =
     (let (pos, is1) = tellg is;
          (name, is2) = getline is1 []
      in if eofbit is2 then (Inl (TscppException ''eof'' []), is2, u)
         else TypePool_unserializeUnknownImpl_stream tp scratch name is2 pos u)"

section \<open>Compile-time type identifiers\<close>

text \<open>
  A string literal is the array of its characters followed by a zero character, and
  \<open>sizeof\<close> counts that character. The functions below are evaluated by the compiler:
  a read past the end of an array is not a constant expression, which is the value
  \<open>None\<close>.
\<close>

definition literal :: "string \<Rightarrow> string" where
  "literal s = s @ [CHR 0x00]"

definition sizeof_literal :: "string \<Rightarrow> nat" where
  "sizeof_literal s = length (literal s)"

fun comptime_memcmp :: "string \<Rightarrow> string \<Rightarrow> nat \<Rightarrow> bool option" where
  "comptime_memcmp a b 0 = Some True"
| "comptime_memcmp (x # a) (y # b) (Suc len) =
     (if x \<noteq> y then Some False else comptime_memcmp a b len)"
| "comptime_memcmp a b (Suc len) = None"

text \<open>
  \<open>hash += *a++\<close> adds a plain \<open>char\<close>, converted to \<open>uint32_t\<close>. Whether \<open>char\<close> is
  signed is a property of the host (signed for gcc on x86-64, unsigned on ARM, and
  switched by \<open>-funsigned-char\<close>); it is the argument \<open>char_is_signed\<close>. Where \<open>char\<close>
  is unsigned the value added is the character code; where it is signed a code from
  128 on is a negative \<open>char\<close>, and the conversion adds the code minus 256 (modulo
  \<open>2 ^ 32\<close>).
\<close>

definition char_to_uint32 :: "bool \<Rightarrow> char \<Rightarrow> 32 word" where
  "char_to_uint32 char_is_signed c =
     (if char_is_signed \<and> 128 \<le> (of_char c :: nat) then of_char c - 256 else of_char c)"

text \<open>The loop of \<open>comptime_hash\<close>.\<close>

fun comptime_hash_loop :: "bool \<Rightarrow> 32 word \<Rightarrow> string \<Rightarrow> nat \<Rightarrow> 32 word option" where
  "comptime_hash_loop char_is_signed hash a 0 = Some hash"
| "comptime_hash_loop char_is_signed hash (c # a) (Suc len) =
     (let hash1 = hash + char_to_uint32 char_is_signed c;
          hash2 = hash1 + push_bit 10 hash1;
          hash3 = hash2 XOR drop_bit 6 hash2
      in comptime_hash_loop char_is_signed hash3 a len)"
| "comptime_hash_loop char_is_signed hash [] (Suc len) = None"

definition comptime_hash :: "bool \<Rightarrow> string \<Rightarrow> nat \<Rightarrow> 32 word option" where
  "comptime_hash char_is_signed a len =
     (case comptime_hash_loop char_is_signed 0 a len of
        None \<Rightarrow> None
      | Some hash \<Rightarrow>
          let hash1 = hash + push_bit 3 hash;
              hash2 = hash1 XOR drop_bit 11 hash1;
              hash3 = hash2 + push_bit 15 hash2
          in Some hash3)"

definition PRETTY_FUNCTION_PRE :: string where
  "PRETTY_FUNCTION_PRE = ''constexpr uint32_t tscpp::type_id() [with T = ''"

definition PRETTY_FUNCTION_POST :: string where
  "PRETTY_FUNCTION_POST = ''; uint32_t = unsigned int]''"

text \<open>Subtraction of \<open>size_t\<close> values wraps around (64 bits on the hosts of the
  library; nothing below depends on the width). The size of an object is below
  \<open>2 ^ 64\<close>, so the difference of two sizes wraps exactly when it is negative.\<close>

definition size_t_sub :: "nat \<Rightarrow> nat \<Rightarrow> nat" where
  "size_t_sub a b = (if b \<le> a then a - b else a + 2 ^ 64 - b)"

text \<open>
  \<open>type_id<T> ()\<close>, given the signedness of \<open>char\<close> on the host and the text \<open>pf\<close>
  that the compiler puts in \<open>__PRETTY_FUNCTION__\<close> for \<open>T\<close>. The result is \<open>None\<close> when the function does not
  compile: a \<open>static_assert\<close> fails, or an operand is not a constant expression.
\<close>

definition type_id :: "bool \<Rightarrow> string \<Rightarrow> 32 word option" where
  "type_id char_is_signed pf =
     (let PRETTY_FUNCTION_SIZEOF = size_t_sub (sizeof_literal pf) 1;
          PRETTY_FUNCTION_PRE_SIZEOF = size_t_sub (sizeof_literal PRETTY_FUNCTION_PRE) 1;
          PRETTY_FUNCTION_POST_SIZEOF = size_t_sub (sizeof_literal PRETTY_FUNCTION_POST) 1;
          assert_pre =
            (if PRETTY_FUNCTION_PRE_SIZEOF < PRETTY_FUNCTION_SIZEOF
             then comptime_memcmp (literal pf) (literal PRETTY_FUNCTION_PRE)
                    PRETTY_FUNCTION_PRE_SIZEOF
             else Some False);
          assert_post =
            (if PRETTY_FUNCTION_POST_SIZEOF < PRETTY_FUNCTION_SIZEOF
             then comptime_memcmp
                    (drop (size_t_sub PRETTY_FUNCTION_SIZEOF PRETTY_FUNCTION_POST_SIZEOF)
                       (literal pf))
                    (literal PRETTY_FUNCTION_POST) PRETTY_FUNCTION_POST_SIZEOF
             else Some False)
      in if assert_pre \<noteq> Some True then None
         else if assert_post \<noteq> Some True then None
         else comptime_hash char_is_signed (drop PRETTY_FUNCTION_PRE_SIZEOF (literal pf))
                (size_t_sub (size_t_sub PRETTY_FUNCTION_SIZEOF PRETTY_FUNCTION_PRE_SIZEOF)
                   PRETTY_FUNCTION_POST_SIZEOF))"





section \<open>Facts about strings and copies\<close>

lemma takeWhile_terminated:
  "0 \<notin> set s \<Longrightarrow> takeWhile (\<lambda>c. c \<noteq> 0) (s @ (0::byte) # r) = s"
  by (induction s) auto

lemma takeWhile_unterminated:
  "0 \<notin> set s \<Longrightarrow> takeWhile (\<lambda>c. c \<noteq> (0::byte)) s = s"
  by (induction s) auto

lemma strlen_c_str: "0 \<notin> set s \<Longrightarrow> strlen (c_str s @ r) = length s"
  by (simp add: strlen_def c_str_def takeWhile_terminated)

lemma strlen_c_str0: "0 \<notin> set s \<Longrightarrow> strlen (c_str s) = length s"
  using strlen_c_str [of s "[]"] by simp

lemma length_c_str: "length (c_str s) = Suc (length s)"
  by (simp add: c_str_def)

lemma length_memcpy:
  "off + n \<le> length dst \<Longrightarrow> n \<le> length src \<Longrightarrow> length (memcpy dst off src n) = length dst"
  by (simp add: memcpy_def)

lemma memcpy_whole:
  "length dst = n \<Longrightarrow> n \<le> length src \<Longrightarrow> memcpy dst 0 src n = take n src"
  by (simp add: memcpy_def)

lemma serializeImpl_fits:
  assumes "0 \<notin> set tag" and "int (length tag) + 1 + int (length data) \<le> bufSize"
    and "nat bufSize \<le> length buffer"
  shows "serializeImpl buffer bufSize (c_str tag) data (int (length data)) =
           (int (length tag) + 1 + int (length data),
            c_str tag @ data @ drop (length tag + 1 + length data) buffer)"
proof -
  have n: "strlen (c_str tag) = length tag"
    using assms(1) by (rule strlen_c_str0)
  have l: "length tag + 1 + length data \<le> length buffer"
    using assms(2,3) by linarith
  have c1: "memcpy buffer 0 (c_str tag) (Suc (length tag)) =
              c_str tag @ drop (Suc (length tag)) buffer"
    by (simp add: memcpy_def c_str_def)
  have c2: "memcpy (c_str tag @ drop (Suc (length tag)) buffer) (Suc (length tag)) data
              (length data) = c_str tag @ data @ drop (length tag + 1 + length data) buffer"
    using l by (simp add: memcpy_def c_str_def add.commute)
  show ?thesis
    using assms(2) by (simp add: serializeImpl_def n Let_def nat_add_distrib c1 c2)
qed

lemma serializeImpl_small:
  "bufSize < int (strlen name) + 1 + sz \<Longrightarrow>
     serializeImpl buffer bufSize name data sz = (BufferTooSmall, buffer)"
  by (simp add: serializeImpl_def Let_def)

lemma unserializeImpl_small:
  "bufSize < int (strlen name) + 1 + sz \<Longrightarrow>
     unserializeImpl name data sz buffer bufSize = (BufferTooSmall, data)"
  by (simp add: unserializeImpl_def Let_def)

lemma memcmp_same_tag:
  "\<not> memcmp (c_str tag @ r) (c_str tag) (Suc (length tag))"
  by (simp add: memcmp_def c_str_def)

lemma unserializeImpl_match:
  assumes "0 \<notin> set tag" and "int (length tag) + 1 + int (length payload) \<le> bufSize"
    and "length data = length payload"
  shows "unserializeImpl (c_str tag) data (int (length payload))
           (c_str tag @ payload @ r) bufSize =
           (int (length tag) + 1 + int (length payload), payload)"
proof -
  have n: "strlen (c_str tag) = length tag"
    using assms(1) by (rule strlen_c_str0)
  have d: "drop (Suc (length tag)) (c_str tag @ payload @ r) = payload @ r"
    by (simp add: c_str_def)
  have c: "memcpy data 0 (payload @ r) (length payload) = payload"
    using assms(3) by (simp add: memcpy_def)
  show ?thesis
    using assms(2) memcmp_same_tag [of tag "payload @ r"]
    by (simp add: unserializeImpl_def n Let_def nat_add_distrib d c del: drop_append)
qed

lemma strlen_type_name: "wf_type T \<Longrightarrow> strlen (c_str (type_name T)) = length (type_name T)"
  by (simp add: wf_type_def strlen_c_str0)

lemma fst_serializeImpl:
  "fst (serializeImpl buffer bufSize name data sz) =
     (if bufSize < int (strlen name) + 1 + sz then BufferTooSmall else int (strlen name) + 1 + sz)"
  by (simp add: serializeImpl_def Let_def)

lemma memcmp_prefix:
  "prefix (c_str tag) buffer \<Longrightarrow> \<not> memcmp buffer (c_str tag) (Suc (length tag))"
  by (auto simp: prefix_def memcmp_same_tag)

lemma OutputArchive_serializeImpl_bytes:
  assumes "0 \<notin> set tag"
  shows "OutputArchive_serializeImpl os (c_str tag) data (int (length data)) =
           os @ c_str tag @ data"
proof -
  have n: "strlen (c_str tag) = length tag"
    using assms by (rule strlen_c_str0)
  show ?thesis
    by (simp add: OutputArchive_serializeImpl_def ostream_write_def n Let_def
        nat_add_distrib length_c_str)
qed


lemma takeWhile_take_terminated:
  assumes "0 \<in> set (take n buffer)"
  shows "takeWhile (\<lambda>c. c \<noteq> (0::byte)) buffer = takeWhile (\<lambda>c. c \<noteq> 0) (take n buffer)"
proof -
  have "takeWhile (\<lambda>c. c \<noteq> 0) (take n buffer @ drop n buffer) =
          takeWhile (\<lambda>c. c \<noteq> 0) (take n buffer)"
    using assms by (intro takeWhile_append1 [where x = 0]) auto
  then show ?thesis by simp
qed

lemma length_takeWhile_less_iff:
  "length (takeWhile (\<lambda>c. c \<noteq> (0::byte)) xs) < length xs \<longleftrightarrow> 0 \<in> set xs"
  by (induction xs) auto

lemma strnlen_less_iff:
  assumes "nat bufSize \<le> length buffer"
  shows "int (strnlen buffer bufSize) < bufSize \<longleftrightarrow> 0 \<in> set (take (nat bufSize) buffer)"
proof (cases "bufSize < 0")
  case True
  then show ?thesis by (simp add: strnlen_def)
next
  case False
  then have l: "length (take (nat bufSize) buffer) = nat bufSize"
    using assms by simp
  have "int (strnlen buffer bufSize) < bufSize \<longleftrightarrow>
        length (takeWhile (\<lambda>c. c \<noteq> 0) (take (nat bufSize) buffer)) < nat bufSize"
    using False by (simp add: strnlen_def) linarith
  also have "\<dots> \<longleftrightarrow> 0 \<in> set (take (nat bufSize) buffer)"
    using length_takeWhile_less_iff [of "take (nat bufSize) buffer"] assms
    by (simp add: min_absorb2)
  finally show ?thesis .
qed

lemma drop_nonempty_length:
  assumes "drop p xs = ys" and "ys \<noteq> []"
  shows "p + length ys = length xs"
proof -
  have "length xs - p = length ys"
    using assms(1) length_drop [of p xs] by simp
  moreover have "0 < length ys"
    using assms(2) by simp
  ultimately show ?thesis by linarith
qed

lemma different_tags_differ:
  assumes "0 \<notin> set a" and "0 \<notin> set b" and "a \<noteq> b"
  shows "take (Suc (length b)) (c_str a @ r) \<noteq> c_str b"
proof
  assume eq: "take (Suc (length b)) (c_str a @ r) = c_str b"
  show False
  proof (cases "length b < length a")
    case True
    then have "take (Suc (length b)) (c_str a @ r) = take (Suc (length b)) a"
      by (simp add: c_str_def)
    then have "set (c_str b) \<subseteq> set a"
      using eq set_take_subset [of "Suc (length b)" a] by simp
    then show False
      using assms(1) by (auto simp: c_str_def)
  next
    case False
    then have "take (Suc (length b)) (c_str a @ r) = a @ 0 # take (length b - length a) r"
      by (simp add: c_str_def Suc_diff_le)
    then have "c_str b = a @ 0 # take (length b - length a) r"
      using eq by (simp only:)
    then have "takeWhile (\<lambda>c. c \<noteq> 0) (c_str b) = a"
      using takeWhile_terminated [OF assms(1)] by simp
    moreover have "takeWhile (\<lambda>c. c \<noteq> 0) (c_str b) = b"
      using assms(2) takeWhile_terminated [of b "[]"] by (simp add: c_str_def)
    ultimately show False
      using assms(3) by simp
  qed
qed

lemma unserializeImpl_other_tag:
  assumes "0 \<notin> set a" and "0 \<notin> set b" and "a \<noteq> b"
    and "prefix (c_str a) buffer"
  shows "unserializeImpl (c_str b) data sz buffer bufSize =
           (if bufSize < int (length b) + 1 + sz then BufferTooSmall else TypeMismatch, data)"
proof -
  obtain r where buf: "buffer = c_str a @ r"
    using assms(4) by (auto simp: prefix_def)
  have sl: "strlen (c_str b) = length b"
    using assms(2) by (rule strlen_c_str0)
  have "take (Suc (length b)) buffer \<noteq> take (Suc (length b)) (c_str b)"
    using different_tags_differ [OF assms(1,2,3), of r] by (simp add: buf c_str_def)
  then have cmp: "memcmp buffer (c_str b) (Suc (length b))"
    by (simp add: memcmp_def)
  show ?thesis
    using cmp by (simp add: unserializeImpl_def sl Let_def nat_add_distrib)
qed

section \<open>Facts about input streams\<close>

lemma sentry_good: "good is \<Longrightarrow> sentry is = (True, is)"
  by (simp add: sentry_def)

lemma tellg_good: "good is \<Longrightarrow> tellg is = (int (gpos is), is)"
  by (simp add: tellg_def sentry_good) (simp add: good_def)

lemma good_gpos_update: "good (is\<lparr>gpos := p\<rparr>) = good is"
  by (simp add: good_def)

lemma seekg_rewind:
  assumes "\<not> failbit is" and "p \<le> length (content is)"
  shows "seekg is (int p) = is\<lparr>eofbit := False, gpos := p\<rparr>"
  using assms by (simp add: seekg_def sentry_def good_def)

lemma istream_read_complete:
  assumes "good is" and "gpos is + n \<le> length (content is)"
  shows "istream_read is dst (int n) =
           (memcpy dst 0 (take n (drop (gpos is) (content is))) n, is\<lparr>gpos := gpos is + n\<rparr>)"
  using assms by (simp add: istream_read_def sentry_good Let_def min_absorb2)

lemma istream_read_short:
  assumes "good is" and "length (drop (gpos is) (content is)) < n"
  shows "istream_read is dst (int n) =
           (memcpy dst 0 (drop (gpos is) (content is)) (length (drop (gpos is) (content is))),
            is\<lparr>gpos := gpos is + length (drop (gpos is) (content is)),
               eofbit := True, failbit := True\<rparr>)"
  using assms by (simp add: istream_read_def sentry_good Let_def min_absorb1)

lemma getline_terminated:
  assumes "good is" and "drop (gpos is) (content is) = tag @ 0 # rest" and "0 \<notin> set tag"
  shows "getline is str = (tag, is\<lparr>gpos := gpos is + length tag + 1\<rparr>)"
proof -
  have "length tag < length (drop (gpos is) (content is))"
    by (simp only: assms(2)) simp
  then show ?thesis
    using assms by (simp add: getline_def sentry_good Let_def takeWhile_terminated del: length_drop)
qed

lemma getline_unterminated:
  assumes "good is" and "0 \<notin> set (drop (gpos is) (content is))"
  shows "getline is str =
           (drop (gpos is) (content is),
            is\<lparr>gpos := gpos is + length (drop (gpos is) (content is)),
               eofbit := True, failbit := (drop (gpos is) (content is) = [])\<rparr>)"
  using assms by (simp add: getline_def sentry_good Let_def takeWhile_unterminated)

lemma getline_name:
  assumes "good is"
  shows "fst (getline is str) = takeWhile (\<lambda>c. c \<noteq> 0) (drop (gpos is) (content is))"
  using assms by (simp add: getline_def sentry_good Let_def)

lemma getline_failbit:
  assumes "good is" and "drop (gpos is) (content is) \<noteq> []"
  shows "\<not> failbit (snd (getline is str))"
proof -
  have "takeWhile (\<lambda>c. c \<noteq> 0) (drop (gpos is) (content is)) \<noteq> []"
    if "\<not> length (takeWhile (\<lambda>c. c \<noteq> 0) (drop (gpos is) (content is)))
          < length (drop (gpos is) (content is))"
    using that assms(2) by (metis length_greater_0_conv list.size(3))
  then show ?thesis
    using assms(1) by (auto simp: getline_def sentry_good Let_def good_def)
qed

lemma getline_content: "content (snd (getline is str)) = content is"
  by (simp add: getline_def sentry_def Let_def)

lemma InputArchive_wrongType_rewinds:
  assumes "good is" and "gpos is < length (content is)"
  shows "InputArchive_wrongType (is\<lparr>gpos := p\<rparr>) (int (gpos is)) =
           (TscppException ''wrong type''
              (takeWhile (\<lambda>c. c \<noteq> 0) (drop (gpos is) (content is))), is)"
proof -
  have nf: "\<not> failbit is" and ne: "\<not> eofbit is"
    using assms(1) by (simp_all add: good_def)
  have s1: "seekg (is\<lparr>gpos := p\<rparr>) (int (gpos is)) = is"
    using nf ne assms(2) by (simp add: seekg_def sentry_def good_def)
  obtain name is2 where g: "getline is [] = (name, is2)"
    by (cases "getline is []")
  have n: "name = takeWhile (\<lambda>c. c \<noteq> 0) (drop (gpos is) (content is))"
    using getline_name [OF assms(1), of "[]"] g by simp
  have f2: "\<not> failbit is2"
    using getline_failbit [OF assms(1), of "[]"] assms(2) g by simp
  have c2: "content is2 = content is"
    using getline_content [of "is" "[]"] g by simp
  have "seekg is2 (int (gpos is)) = is2\<lparr>eofbit := False, gpos := gpos is\<rparr>"
    using seekg_rewind [of is2 "gpos is"] f2 c2 assms(2) by simp
  also have "\<dots> = is"
    by (rule istream.equality) (use c2 f2 nf ne in simp_all)
  finally have s3: "seekg is2 (int (gpos is)) = is" .
  show ?thesis
    by (simp add: InputArchive_wrongType_def s1 g n [symmetric] s3)
qed

lemma InputArchive_unserializeImpl_mismatch:
  assumes "good is" and "0 \<notin> set tag"
    and "gpos is + length tag + 1 \<le> length (content is)"
    and "take (length tag + 1) (drop (gpos is) (content is)) \<noteq> c_str tag"
  shows "InputArchive_unserializeImpl scratch is (c_str tag) data sz =
           (Inl (TscppException ''wrong type''
                   (takeWhile (\<lambda>c. c \<noteq> 0) (drop (gpos is) (content is)))), data, is)"
proof -
  define n where "n = Suc (length tag)"
  define got where "got = take n (drop (gpos is) (content is))"
  have sl: "strlen (c_str tag) = length tag"
    using assms(2) by (rule strlen_c_str0)
  have le: "gpos is + n \<le> length (content is)"
    using assms(3) by (simp add: n_def)
  have lg: "length got = n"
    using le by (simp add: got_def)
  have rd: "istream_read is scratch (int n) = (memcpy scratch 0 got n, is\<lparr>gpos := gpos is + n\<rparr>)"
    using istream_read_complete [OF assms(1) le] by (simp add: got_def)
  have ne: "\<not> eofbit is"
    using assms(1) by (simp add: good_def)
  have "take n (memcpy scratch 0 got n) = got"
    using lg by (simp add: memcpy_def)
  moreover have "take n (c_str tag) = c_str tag"
    by (simp add: n_def c_str_def)
  ultimately have cmp: "memcmp (memcpy scratch 0 got n) (c_str tag) n"
    using assms(4) by (simp add: memcmp_def got_def n_def)
  have lt: "gpos is < length (content is)"
    using assms(3) by simp
  have in1: "int (length tag) + 1 = int n"
    by (simp add: n_def)
  show ?thesis
    using cmp ne
    by (simp add: InputArchive_unserializeImpl_def tellg_good [OF assms(1)] sl in1 rd
        InputArchive_wrongType_rewinds [OF assms(1) lt] del: of_nat_Suc)
qed

lemma InputArchive_unserializeImpl_eof_tag:
  assumes "good is" and "0 \<notin> set tag"
    and "length (drop (gpos is) (content is)) < length tag + 1"
  shows "InputArchive_unserializeImpl scratch is (c_str tag) data sz =
           (Inl (TscppException ''eof'' []), data,
            is\<lparr>gpos := gpos is + length (drop (gpos is) (content is)),
               eofbit := True, failbit := True\<rparr>)"
proof -
  have sl: "strlen (c_str tag) = length tag"
    using assms(2) by (rule strlen_c_str0)
  have in1: "int (length tag) + 1 = int (length tag + 1)"
    by simp
  show ?thesis
    by (simp add: InputArchive_unserializeImpl_def tellg_good [OF assms(1)] sl
        istream_read_short [OF assms(1,3)] del: of_nat_add of_nat_Suc length_drop One_nat_def
        add: in1)
qed

lemma InputArchive_unserializeImpl_other_tag:
  assumes "0 \<notin> set a" and "0 \<notin> set b" and "a \<noteq> b" and "good is"
    and "prefix (c_str a) (drop (gpos is) (content is))"
  shows "InputArchive_unserializeImpl scratch is (c_str b) data sz =
           (if length (drop (gpos is) (content is)) < length b + 1
            then (Inl (TscppException ''eof'' []), data,
                  is\<lparr>gpos := length (content is), eofbit := True, failbit := True\<rparr>)
            else (Inl (TscppException ''wrong type'' a), data, is))"
proof -
  obtain r where d: "drop (gpos is) (content is) = c_str a @ r"
    using assms(5) by (auto simp: prefix_def)
  have len: "gpos is + length (c_str a @ r) = length (content is)"
    using d by (rule drop_nonempty_length) (simp add: c_str_def)
  show ?thesis
  proof (cases "length (drop (gpos is) (content is)) < length b + 1")
    case True
    have "gpos is + length (drop (gpos is) (content is)) = length (content is)"
      using len by (simp only: d)
    then show ?thesis
      using True InputArchive_unserializeImpl_eof_tag [OF assms(4,2) True, of scratch data sz]
      by (simp del: length_drop)
  next
    case False
    then have le: "gpos is + length b + 1 \<le> length (content is)"
      by simp
    have ne: "take (length b + 1) (drop (gpos is) (content is)) \<noteq> c_str b"
      using different_tags_differ [OF assms(1,2,3), of r] by (simp only: d) simp
    have nm: "takeWhile (\<lambda>c. c \<noteq> 0) (drop (gpos is) (content is)) = a"
      using takeWhile_terminated [OF assms(1), of r] by (simp only: d) (simp add: c_str_def)
    show ?thesis
      using False InputArchive_unserializeImpl_mismatch [OF assms(4,2) le ne, of scratch data sz]
      by (simp only: nm if_False)
  qed
qed

lemma UnknownInputArchive_unserialize_eof:
  assumes "good is" and "gpos is \<le> length (content is)"
    and "0 \<notin> set (drop (gpos is) (content is))"
  shows "UnknownInputArchive_unserialize tp scratch is u =
           (Inl (TscppException ''eof'' []),
            is\<lparr>gpos := length (content is), eofbit := True,
               failbit := (drop (gpos is) (content is) = [])\<rparr>, u)"
proof -
  define rest where "rest = drop (gpos is) (content is)"
  have len: "gpos is + length rest = length (content is)"
    using assms(2) by (simp add: rest_def)
  have g: "getline is [] =
             (rest, is\<lparr>gpos := length (content is), eofbit := True, failbit := (rest = [])\<rparr>)"
    using getline_unterminated [OF assms(1,3), of "[]"] by (simp only: rest_def [symmetric] len)
  show ?thesis
    unfolding UnknownInputArchive_unserialize_def tellg_good [OF assms(1)] rest_def [symmetric]
    by (simp add: g)
qed

lemma UnknownInputArchive_unserialize_unknown:
  assumes "good is" and "drop (gpos is) (content is) = c_str tag @ rest"
    and "0 \<notin> set tag" and "tp tag = None"
  shows "UnknownInputArchive_unserialize tp scratch is u =
           (Inl (TscppException ''unknown type'' tag), is, u)"
proof -
  have d: "drop (gpos is) (content is) = tag @ 0 # rest"
    using assms(2) by (simp add: c_str_def)
  have "gpos is + length (tag @ 0 # rest) = length (content is)"
    using d by (rule drop_nonempty_length) simp
  then have le: "gpos is \<le> length (content is)"
    by simp
  have nf: "\<not> failbit is" and ne: "\<not> eofbit is"
    using assms(1) by (simp_all add: good_def)
  define is2 where "is2 = is\<lparr>gpos := gpos is + length tag + 1\<rparr>"
  have sk: "seekg is2 (int (gpos is)) = is"
    using nf ne le by (simp add: is2_def seekg_def sentry_def good_def)
  have ne2: "\<not> eofbit is2"
    using ne by (simp add: is2_def)
  have g: "getline is [] = (tag, is2)"
    using getline_terminated [OF assms(1) d assms(3), of "[]"] by (simp only: is2_def)
  have p: "TypePool_unserializeUnknownImpl_stream tp scratch tag is2 (int (gpos is)) u =
             (Inl (TscppException ''unknown type'' tag), is, u)"
    by (simp add: TypePool_unserializeUnknownImpl_stream_def assms(4) sk)
  show ?thesis
    unfolding UnknownInputArchive_unserialize_def tellg_good [OF assms(1)]
    using ne2 by (simp add: g p)
qed

section \<open>Facts about the compile-time functions\<close>

















section \<open>The buffer API on records of known type\<close>

text \<open>
  Claim C2 (round trip). For a type \<open>T\<close> whose name is a C string and a value \<open>v\<close> of
  \<open>sizeof T\<close> bytes, \<open>serialize\<close> into a buffer of at least
  \<open>L = length (type_name T) + 1 + sizeof T\<close> bytes returns \<open>L\<close>, and \<open>unserialize\<close> for
  the same type from the buffer it leaves returns \<open>L\<close> too and makes the destination
  equal to \<open>v\<close>, byte for byte.
\<close>

theorem serialize_unserialize_round_trip:
  assumes "wf_type T" and "length v = sizeof T" and "length t = sizeof T"
    and "L = int (length (type_name T)) + 1 + int (sizeof T)"
    and "L \<le> bufSize" and "nat bufSize \<le> length buffer"
  shows "fst (serialize T buffer bufSize v) = L \<and>
         unserialize T t (snd (serialize T buffer bufSize v)) bufSize = (L, v)"
proof -
  have z: "0 \<notin> set (type_name T)"
    using assms(1) by (simp add: wf_type_def)
  have le: "int (length (type_name T)) + 1 + int (length v) \<le> bufSize"
    using assms(2,4,5) by simp
  define r where "r = drop (length (type_name T) + 1 + length v) buffer"
  have s: "serialize T buffer bufSize v = (L, c_str (type_name T) @ v @ r)"
    using serializeImpl_fits [OF z le assms(6)] assms(2,4)
    by (simp only: serialize_def r_def)
  have u: "unserialize T t (c_str (type_name T) @ v @ r) bufSize = (L, v)"
    using unserializeImpl_match [OF z le, of t r] assms(2,3,4)
    by (simp only: unserialize_def)
  show ?thesis by (simp add: s u)
qed


text \<open>The round trip at a two-byte type named \<open>AB\<close> and a six-byte buffer.\<close>

theorem serialize_unserialize_round_trip_witness:
  "wf_type \<lparr>type_name = [65, 66], sizeof = 2\<rparr> \<and>
   fst (serialize \<lparr>type_name = [65, 66], sizeof = 2\<rparr> [9, 9, 9, 9, 9, 9] 6 [1, 2]) = 5 \<and>
   unserialize \<lparr>type_name = [65, 66], sizeof = 2\<rparr> [0, 0]
     (snd (serialize \<lparr>type_name = [65, 66], sizeof = 2\<rparr> [9, 9, 9, 9, 9, 9] 6 [1, 2])) 6 =
     (5, [1, 2])"
  using serialize_unserialize_round_trip [of "\<lparr>type_name = [65, 66], sizeof = 2\<rparr>"
      "[1, 2]" "[0, 0]" 5 6 "[9, 9, 9, 9, 9, 9]"]
  by (simp add: wf_type_def)


text \<open>
  Claim C6 (the boundary of \<open>BufferTooSmall\<close>). With
  \<open>L = length (type_name T) + 1 + sizeof T\<close>: \<open>serialize\<close> with capacity \<open>L\<close> returns
  \<open>L\<close> and with capacity \<open>L - 1\<close> returns \<open>BufferTooSmall\<close>; \<open>unserialize\<close> from a
  buffer that starts with the name and its terminator returns \<open>L\<close> for size \<open>L\<close> and
  \<open>BufferTooSmall\<close> for size \<open>L - 1\<close>; and \<open>L\<close> is not the error code.
\<close>

theorem buffer_too_small_boundary:
  assumes "wf_type T" and "L = int (length (type_name T)) + 1 + int (sizeof T)"
  shows "fst (serialize T buffer L v) = L \<and>
         fst (serialize T buffer (L - 1) v) = BufferTooSmall \<and>
         (prefix (c_str (type_name T)) rbuf \<longrightarrow> fst (unserialize T t rbuf L) = L) \<and>
         fst (unserialize T t rbuf (L - 1)) = BufferTooSmall \<and>
         L \<noteq> BufferTooSmall"
proof -
  have n: "strlen (c_str (type_name T)) = length (type_name T)"
    using assms(1) by (rule strlen_type_name)
  have s1: "fst (serialize T buffer L v) = L"
    by (simp add: serialize_def fst_serializeImpl n assms(2))
  have s2: "fst (serialize T buffer (L - 1) v) = BufferTooSmall"
    by (simp add: serialize_def fst_serializeImpl n assms(2))
  have u1: "fst (unserialize T t rbuf L) = L" if "prefix (c_str (type_name T)) rbuf"
    using memcmp_prefix [OF that]
    by (simp add: unserialize_def unserializeImpl_def Let_def n assms(2) nat_add_distrib)
  have u2: "fst (unserialize T t rbuf (L - 1)) = BufferTooSmall"
    by (simp add: unserialize_def unserializeImpl_small n assms(2))
  have p: "L \<noteq> BufferTooSmall"
    by (simp add: assms(2) BufferTooSmall_def)
  from s1 s2 u1 u2 p show ?thesis by blast
qed


text \<open>The boundary at a two-byte type named \<open>AB\<close>: capacities 5 and 4.\<close>

theorem buffer_too_small_boundary_witness:
  "wf_type \<lparr>type_name = [65, 66], sizeof = 2\<rparr> \<and>
   prefix (c_str [65, 66]) [65, 66, 0, 1, 2] \<and>
   fst (serialize \<lparr>type_name = [65, 66], sizeof = 2\<rparr> [9, 9, 9, 9, 9] 5 [1, 2]) = 5 \<and>
   fst (serialize \<lparr>type_name = [65, 66], sizeof = 2\<rparr> [9, 9, 9, 9, 9] 4 [1, 2]) = BufferTooSmall \<and>
   fst (unserialize \<lparr>type_name = [65, 66], sizeof = 2\<rparr> [0, 0] [65, 66, 0, 1, 2] 5) = 5 \<and>
   fst (unserialize \<lparr>type_name = [65, 66], sizeof = 2\<rparr> [0, 0] [65, 66, 0, 1, 2] 4) = BufferTooSmall"
  using buffer_too_small_boundary [of "\<lparr>type_name = [65, 66], sizeof = 2\<rparr>" 5
      "[9, 9, 9, 9, 9]" "[1, 2]" "[65, 66, 0, 1, 2]" "[0, 0]"]
  by (simp add: wf_type_def c_str_def)


text \<open>
  Claim C7 (the stream and the buffer write the same record). For a value \<open>v\<close> of a type
  \<open>T\<close>, \<open>operator<<\<close> appends to the stream the name, a zero byte and the bytes of
  \<open>v\<close>; \<open>serialize\<close> into a buffer that is large enough writes the same bytes at its
  start, leaves the rest of the buffer as it was and returns their number,
  \<open>length (type_name T) + 1 + sizeof T\<close>.
\<close>

theorem stream_write_equals_buffer_serialize:
  assumes "wf_type T" and "length v = sizeof T"
    and "L = int (length (type_name T)) + 1 + int (sizeof T)"
    and "L \<le> bufSize" and "nat bufSize \<le> length buffer"
  shows "OutputArchive_shl T os v = os @ type_name T @ [0] @ v \<and>
         serialize T buffer bufSize v =
           (L, type_name T @ [0] @ v @ drop (nat L) buffer) \<and>
         int (length (type_name T @ [0] @ v)) = L"
proof -
  have z: "0 \<notin> set (type_name T)"
    using assms(1) by (simp add: wf_type_def)
  have le: "int (length (type_name T)) + 1 + int (length v) \<le> bufSize"
    using assms(2,3,4) by simp
  have w: "OutputArchive_shl T os v = os @ type_name T @ [0] @ v"
    using OutputArchive_serializeImpl_bytes [OF z, of os v] assms(2)
    by (simp add: OutputArchive_shl_def c_str_def)
  have nl: "length (type_name T) + 1 + length v = nat L"
    using assms(2,3) by simp
  have "serialize T buffer bufSize v =
          (L, c_str (type_name T) @ v @ drop (length (type_name T) + 1 + length v) buffer)"
    using serializeImpl_fits [OF z le assms(5)] assms(2,3)
    by (simp only: serialize_def)
  then have s: "serialize T buffer bufSize v =
             (L, type_name T @ [0] @ v @ drop (nat L) buffer)"
    by (simp only: nl c_str_def append_assoc)
  have l: "int (length (type_name T @ [0] @ v)) = L"
    using assms(2,3) by simp
  from w s l show ?thesis by blast
qed


text \<open>Both writers at a two-byte type named \<open>AB\<close>.\<close>

theorem stream_write_equals_buffer_serialize_witness:
  "wf_type \<lparr>type_name = [65, 66], sizeof = 2\<rparr> \<and>
   OutputArchive_shl \<lparr>type_name = [65, 66], sizeof = 2\<rparr> [7] [1, 2] = [7, 65, 66, 0, 1, 2] \<and>
   serialize \<lparr>type_name = [65, 66], sizeof = 2\<rparr> [9, 9, 9, 9, 9, 9] 6 [1, 2] =
     (5, [65, 66, 0, 1, 2, 9])"
  using stream_write_equals_buffer_serialize [of "\<lparr>type_name = [65, 66], sizeof = 2\<rparr>"
      "[1, 2]" 5 6 "[9, 9, 9, 9, 9, 9]" "[7]"]
  by (simp add: wf_type_def)

text \<open>
  Claim C5 (a mismatch leaves the destination alone), as the code has it. Let \<open>A\<close> and
  \<open>B\<close> be types with different names. \<open>unserialize\<close> for \<open>B\<close> from a buffer that
  starts with a record of \<open>A\<close> leaves the destination as it was; it returns
  \<open>TypeMismatch\<close> when the size of the buffer is at least
  \<open>length (type_name B) + 1 + sizeof B\<close>, and \<open>BufferTooSmall\<close> when it is less, since
  the size is checked before the name. \<open>operator>>\<close> for \<open>B\<close> on a good stream that
  stands at a record of \<open>A\<close> leaves the destination as it was too; it throws
  \<open>wrong type\<close> with the name of \<open>A\<close> and puts the stream back where it was when at
  least \<open>length (type_name B) + 1\<close> bytes are left, and throws \<open>eof\<close> with the stream
  at its end when fewer are.
\<close>

theorem type_mismatch_leaves_destination:
  assumes "wf_type A" and "wf_type B" and "type_name A \<noteq> type_name B"
  shows "(prefix (c_str (type_name A)) buffer \<longrightarrow>
            unserialize B t buffer bufSize =
              (if bufSize < int (length (type_name B)) + 1 + int (sizeof B)
               then BufferTooSmall else TypeMismatch, t)) \<and>
         (good is \<and> prefix (c_str (type_name A)) (drop (gpos is) (content is)) \<longrightarrow>
            InputArchive_shr B scratch is t =
              (if length (drop (gpos is) (content is)) < length (type_name B) + 1
               then (Inl (TscppException ''eof'' []), t,
                     is\<lparr>gpos := length (content is), eofbit := True, failbit := True\<rparr>)
               else (Inl (TscppException ''wrong type'' (type_name A)), t, is)))"
proof -
  have a: "0 \<notin> set (type_name A)" and b: "0 \<notin> set (type_name B)"
    using assms(1,2) by (simp_all add: wf_type_def)
  show ?thesis
    using unserializeImpl_other_tag [OF a b assms(3)]
      InputArchive_unserializeImpl_other_tag [OF a b assms(3)]
    by (simp add: unserialize_def InputArchive_shr_def)
qed

text \<open>A one-byte type \<open>A\<close> read as a four-byte type \<open>B\<close>, from a six-byte buffer and
  from a stream.\<close>

theorem type_mismatch_leaves_destination_witness:
  "wf_type \<lparr>type_name = [65], sizeof = 1\<rparr> \<and> wf_type \<lparr>type_name = [66], sizeof = 4\<rparr> \<and>
   unserialize \<lparr>type_name = [66], sizeof = 4\<rparr> [1, 2, 3, 4] [65, 0, 7, 9, 9, 9] 6 =
     (TypeMismatch, [1, 2, 3, 4]) \<and>
   InputArchive_shr \<lparr>type_name = [66], sizeof = 4\<rparr> []
     \<lparr>content = [65, 0, 7], gpos = 0, eofbit = False, failbit = False\<rparr> [1, 2, 3, 4] =
     (Inl (TscppException ''wrong type'' [65]), [1, 2, 3, 4],
      \<lparr>content = [65, 0, 7], gpos = 0, eofbit = False, failbit = False\<rparr>)"
  using type_mismatch_leaves_destination [of "\<lparr>type_name = [65], sizeof = 1\<rparr>"
      "\<lparr>type_name = [66], sizeof = 4\<rparr>" "[65, 0, 7, 9, 9, 9]" "[1, 2, 3, 4]" 6
      "\<lparr>content = [65, 0, 7], gpos = 0, eofbit = False, failbit = False\<rparr>" "[]"]
  by (simp add: wf_type_def good_def c_str_def)

text \<open>
  The claim as it is worded fails on the record that \<open>serialize\<close> returns: the
  three-byte record of a one-byte type \<open>A\<close>, read from a buffer of those three bytes
  as the four-byte type \<open>BC\<close>, gives \<open>BufferTooSmall\<close>, which is not \<open>TypeMismatch\<close>;
  and the same record in a stream, read as a type with the three-byte name \<open>BCD\<close>,
  throws \<open>eof\<close>.
\<close>

theorem type_mismatch_counterexample:
  "wf_type \<lparr>type_name = [65], sizeof = 1\<rparr> \<and> wf_type \<lparr>type_name = [66, 67], sizeof = 4\<rparr> \<and>
   serialize \<lparr>type_name = [65], sizeof = 1\<rparr> [0, 0, 0] 3 [7] = (3, [65, 0, 7]) \<and>
   unserialize \<lparr>type_name = [66, 67], sizeof = 4\<rparr> [1, 2, 3, 4] [65, 0, 7] 3 =
     (BufferTooSmall, [1, 2, 3, 4]) \<and>
   OutputArchive_shl \<lparr>type_name = [65], sizeof = 1\<rparr> [] [7] = [65, 0, 7] \<and>
   InputArchive_shr \<lparr>type_name = [66, 67, 68], sizeof = 4\<rparr> []
     \<lparr>content = [65, 0, 7], gpos = 0, eofbit = False, failbit = False\<rparr> [1, 2, 3, 4] =
     (Inl (TscppException ''eof'' []), [1, 2, 3, 4],
      \<lparr>content = [65, 0, 7], gpos = 3, eofbit = True, failbit = True\<rparr>) \<and>
   BufferTooSmall \<noteq> TypeMismatch"
  by (simp add: wf_type_def serialize_def serializeImpl_def unserialize_def
      unserializeImpl_def strlen_def c_str_def memcpy_def memcmp_def Let_def
      OutputArchive_shl_def OutputArchive_serializeImpl_def ostream_write_def
      InputArchive_shr_def InputArchive_unserializeImpl_def tellg_def sentry_def good_def
      istream_read_def BufferTooSmall_def TypeMismatch_def)

section \<open>The buffer API on records of unknown type\<close>

text \<open>
  Claim C1 (the error codes of \<open>unserializeUnknown\<close>). The C++ adds \<open>nameSize + 1\<close> to
  whatever \<open>TypePool::unserializeUnknownImpl\<close> returns, an error code included. With an
  empty pool and the three-byte buffer \<open>AB\<close>, zero, the result is \<open>0\<close>, not
  \<open>TypeNotFound\<close>; with the two-byte type \<open>AB\<close> in the pool and the four-byte buffer
  \<open>AB\<close>, zero, one payload byte, the result is \<open>2\<close>, not \<open>BufferTooSmall\<close>. Neither
  result is negative, and in neither case has the callback run.
\<close>

theorem unserializeUnknown_error_code_shifted:
  "unserializeUnknown (Map.empty :: unit TypePool) [65, 66, 0] 3 () = (0, ()) \<and>
   unserializeUnknown (registerType \<lparr>type_name = [65, 66], sizeof = 2\<rparr> (\<lambda>b u. b # u) Map.empty)
     [65, 66, 0, 1] 4 [] = (2, []) \<and>
   TypeNotFound = - 3 \<and> BufferTooSmall = - 1"
  by (simp add: unserializeUnknown_def TypePool_unserializeUnknownImpl_def strnlen_def
      string_of_def registerType_def TypeNotFound_def BufferTooSmall_def Let_def)

text \<open>
  Claim C9 (\<open>peekTypeName\<close>). The function takes the buffer by pointer to \<open>const\<close> and
  returns a string: it has the buffer and its size as only inputs and the string as
  only output. For a buffer that has \<open>bufSize\<close> bytes, the string is the bytes before
  the first zero byte when a zero byte is among the first \<open>bufSize\<close> bytes, and empty
  when none is; it depends on those \<open>bufSize\<close> bytes only.
\<close>

theorem peekTypeName_leading_tag:
  assumes "nat bufSize \<le> length buffer"
  shows "peekTypeName buffer bufSize =
           (if 0 \<in> set (take (nat bufSize) buffer)
            then takeWhile (\<lambda>c. c \<noteq> 0) (take (nat bufSize) buffer) else [])"
proof (cases "0 \<in> set (take (nat bufSize) buffer)")
  case True
  then have "int (strnlen buffer bufSize) < bufSize"
    using strnlen_less_iff [OF assms] by simp
  then show ?thesis
    using True takeWhile_take_terminated [OF True]
    by (simp add: peekTypeName_def string_of_def Let_def)
next
  case False
  then have "\<not> int (strnlen buffer bufSize) < bufSize"
    using strnlen_less_iff [OF assms] by simp
  then show ?thesis
    using False by (simp add: peekTypeName_def Let_def)
qed

text \<open>The name \<open>AB\<close> of a five-byte buffer, and no name within its first two bytes.\<close>

theorem peekTypeName_leading_tag_witness:
  "peekTypeName [65, 66, 0, 1, 2] 5 = [65, 66] \<and> peekTypeName [65, 66, 0, 1, 2] 2 = []"
  using peekTypeName_leading_tag [of 5 "[65, 66, 0, 1, 2]"]
    peekTypeName_leading_tag [of 2 "[65, 66, 0, 1, 2]"]
  by simp

section \<open>The stream API\<close>

text \<open>
  Claim C3 (a wrong type rewinds the stream). On a good stream that holds at least
  \<open>length tag + 1\<close> more bytes, when these bytes are not the expected name and its
  terminator, \<open>InputArchive::unserializeImpl\<close> throws \<open>wrong type\<close>; the exception
  carries the bytes of the stream from the start of the record up to the first zero
  byte (or to the end of the source when there is none), the destination is as it was,
  and the stream is back in the state it had at the start of the read.
\<close>

theorem InputArchive_type_mismatch_rewinds:
  assumes "good is" and "0 \<notin> set tag"
    and "gpos is + length tag + 1 \<le> length (content is)"
    and "take (length tag + 1) (drop (gpos is) (content is)) \<noteq> c_str tag"
  shows "InputArchive_unserializeImpl scratch is (c_str tag) data sz =
           (Inl (TscppException ''wrong type''
                   (takeWhile (\<lambda>c. c \<noteq> 0) (drop (gpos is) (content is)))), data, is)"
  using assms by (rule InputArchive_unserializeImpl_mismatch)

text \<open>The name \<open>AC\<close> found where \<open>AB\<close> is expected, in a stream that stands at
  position 1.\<close>

theorem InputArchive_type_mismatch_rewinds_witness:
  "good \<lparr>content = [9, 65, 67, 0, 1, 2], gpos = 1, eofbit = False, failbit = False\<rparr> \<and>
   InputArchive_unserializeImpl []
     \<lparr>content = [9, 65, 67, 0, 1, 2], gpos = 1, eofbit = False, failbit = False\<rparr>
     (c_str [65, 66]) [7, 7] 2 =
     (Inl (TscppException ''wrong type'' [65, 67]), [7, 7],
      \<lparr>content = [9, 65, 67, 0, 1, 2], gpos = 1, eofbit = False, failbit = False\<rparr>)"
  using InputArchive_type_mismatch_rewinds [of
      "\<lparr>content = [9, 65, 67, 0, 1, 2], gpos = 1, eofbit = False, failbit = False\<rparr>"
      "[65, 66]" "[]" "[7, 7]" 2]
  by (simp add: good_def c_str_def)

text \<open>
  Claim C4 (the rewind differs between the two failures of the unknown-type read). On a
  good stream: when no zero byte is left in the source,
  \<open>UnknownInputArchive::unserialize\<close> throws \<open>eof\<close> and leaves the stream at the end
  of the source with \<open>eofbit\<close> set; when the source holds a name and its terminator and
  the pool has no entry for the name, it throws \<open>unknown type\<close> with the name, and the
  stream is back in the state it had at the start of the read. The user state is as it
  was in both cases.
\<close>

theorem UnknownInputArchive_rewind_asymmetry:
  assumes "good is" and "gpos is \<le> length (content is)"
  shows "(0 \<notin> set (drop (gpos is) (content is)) \<longrightarrow>
            UnknownInputArchive_unserialize tp scratch is u =
              (Inl (TscppException ''eof'' []),
               is\<lparr>gpos := length (content is), eofbit := True,
                  failbit := (drop (gpos is) (content is) = [])\<rparr>, u)) \<and>
         (drop (gpos is) (content is) = c_str tag @ rest \<and> 0 \<notin> set tag \<and> tp tag = None \<longrightarrow>
            UnknownInputArchive_unserialize tp scratch is u =
              (Inl (TscppException ''unknown type'' tag), is, u))"
proof (intro conjI impI)
  assume "0 \<notin> set (drop (gpos is) (content is))"
  with assms show "UnknownInputArchive_unserialize tp scratch is u =
      (Inl (TscppException ''eof'' []),
       is\<lparr>gpos := length (content is), eofbit := True,
          failbit := (drop (gpos is) (content is) = [])\<rparr>, u)"
    by (rule UnknownInputArchive_unserialize_eof)
next
  assume a: "drop (gpos is) (content is) = c_str tag @ rest \<and> 0 \<notin> set tag \<and> tp tag = None"
  show "UnknownInputArchive_unserialize tp scratch is u =
      (Inl (TscppException ''unknown type'' tag), is, u)"
    using assms(1) a by (intro UnknownInputArchive_unserialize_unknown) simp_all
qed

text \<open>An unterminated name and an unknown name, in streams that stand at position 1.\<close>

theorem UnknownInputArchive_rewind_asymmetry_witness:
  "UnknownInputArchive_unserialize (Map.empty :: unit TypePool) []
     \<lparr>content = [9, 65, 66, 1], gpos = 1, eofbit = False, failbit = False\<rparr> () =
     (Inl (TscppException ''eof'' []),
      \<lparr>content = [9, 65, 66, 1], gpos = 4, eofbit = True, failbit = False\<rparr>, ()) \<and>
   UnknownInputArchive_unserialize (Map.empty :: unit TypePool) []
     \<lparr>content = [9, 65, 66, 0, 1], gpos = 1, eofbit = False, failbit = False\<rparr> () =
     (Inl (TscppException ''unknown type'' [65, 66]),
      \<lparr>content = [9, 65, 66, 0, 1], gpos = 1, eofbit = False, failbit = False\<rparr>, ())"
  using UnknownInputArchive_rewind_asymmetry [of
      "\<lparr>content = [9, 65, 66, 1], gpos = 1, eofbit = False, failbit = False\<rparr>"
      "Map.empty :: unit TypePool" "[]" "()"]
    UnknownInputArchive_rewind_asymmetry [of
      "\<lparr>content = [9, 65, 66, 0, 1], gpos = 1, eofbit = False, failbit = False\<rparr>"
      "Map.empty :: unit TypePool" "[]" "()" "[65, 66]" "[1]"]
  by (simp add: good_def c_str_def)

text \<open>
  Claim C10 (a truncated payload). On a good stream that holds the expected name, its
  terminator and then fewer bytes than the size of the type, \<open>operator>>\<close> throws
  \<open>eof\<close>; the bytes that were left have been copied over the start of the destination,
  the rest of which is as it was; the stream is at the end of the source, past the
  start of the record, with \<open>eofbit\<close> and \<open>failbit\<close> set.
\<close>

theorem InputArchive_truncated_payload:
  assumes "good is" and "wf_type T"
    and "drop (gpos is) (content is) = c_str (type_name T) @ avail"
    and "length avail < sizeof T" and "length t = sizeof T"
  shows "InputArchive_shr T scratch is t =
           (Inl (TscppException ''eof'' []), avail @ drop (length avail) t,
            is\<lparr>gpos := length (content is), eofbit := True, failbit := True\<rparr>) \<and>
         gpos is < length (content is)"
proof -
  define tag where "tag = type_name T"
  define n where "n = Suc (length tag)"
  have z: "0 \<notin> set tag"
    using assms(2) by (simp add: wf_type_def tag_def)
  have sl: "strlen (c_str tag) = length tag"
    using z by (rule strlen_c_str0)
  have d: "drop (gpos is) (content is) = c_str tag @ avail"
    using assms(3) by (simp add: tag_def)
  have "gpos is + length (c_str tag @ avail) = length (content is)"
    using d by (rule drop_nonempty_length) (simp add: c_str_def)
  then have len: "gpos is + (n + length avail) = length (content is)"
    by (simp add: n_def c_str_def)
  have le: "gpos is + n \<le> length (content is)" and lt: "gpos is < length (content is)"
    using len by (simp_all add: n_def)
  have got: "take n (drop (gpos is) (content is)) = c_str tag"
    by (simp only: d) (simp add: n_def c_str_def)
  have rd: "istream_read is scratch (int n) =
              (memcpy scratch 0 (c_str tag) n, is\<lparr>gpos := gpos is + n\<rparr>)"
    using istream_read_complete [OF assms(1) le, of scratch] by (simp only: got)
  have cmp: "\<not> memcmp (memcpy scratch 0 (c_str tag) n) (c_str tag) n"
    by (simp add: memcmp_def memcpy_def n_def c_str_def)
  have ne: "\<not> eofbit is"
    using assms(1) by (simp add: good_def)
  define is2 where "is2 = is\<lparr>gpos := gpos is + n\<rparr>"
  have g2: "good is2"
    using assms(1) by (simp add: is2_def good_def)
  have ne2: "\<not> eofbit is2"
    using g2 by (simp add: good_def)
  have d2: "drop (gpos is2) (content is2) = avail"
  proof -
    have "drop (gpos is + n) (content is) = drop n (drop (gpos is) (content is))"
      by (simp add: add.commute)
    also have "\<dots> = avail"
      by (simp only: d) (simp add: n_def c_str_def)
    finally show ?thesis by (simp add: is2_def)
  qed
  have short: "length (drop (gpos is2) (content is2)) < sizeof T"
    using assms(4) by (simp only: d2)
  have rd2: "istream_read is2 t (int (sizeof T)) =
               (memcpy t 0 avail (length avail),
                is2\<lparr>gpos := gpos is2 + length avail, eofbit := True, failbit := True\<rparr>)"
    using istream_read_short [OF g2 short, of t] by (simp only: d2)
  have fin: "is2\<lparr>gpos := gpos is2 + length avail, eofbit := True, failbit := True\<rparr> =
               is\<lparr>gpos := length (content is), eofbit := True, failbit := True\<rparr>"
    using len by (simp add: is2_def add.assoc)
  have cp: "memcpy t 0 avail (length avail) = avail @ drop (length avail) t"
    by (simp add: memcpy_def)
  have in1: "int (length tag) + 1 = int n"
    by (simp add: n_def)
  have "InputArchive_unserializeImpl scratch is (c_str tag) t (int (sizeof T)) =
          (Inl (TscppException ''eof'' []), avail @ drop (length avail) t,
           is\<lparr>gpos := length (content is), eofbit := True, failbit := True\<rparr>)"
    using cmp ne2
    by (simp add: InputArchive_unserializeImpl_def tellg_good [OF assms(1)] sl in1 rd
        is2_def [symmetric] rd2 fin cp del: of_nat_Suc)
  then show ?thesis
    using lt by (simp add: InputArchive_shr_def tag_def)
qed

text \<open>One byte of a two-byte payload: the destination \<open>7, 7\<close> becomes \<open>1, 7\<close>.\<close>

theorem InputArchive_truncated_payload_witness:
  "good \<lparr>content = [65, 66, 0, 1], gpos = 0, eofbit = False, failbit = False\<rparr> \<and>
   wf_type \<lparr>type_name = [65, 66], sizeof = 2\<rparr> \<and>
   InputArchive_shr \<lparr>type_name = [65, 66], sizeof = 2\<rparr> []
     \<lparr>content = [65, 66, 0, 1], gpos = 0, eofbit = False, failbit = False\<rparr> [7, 7] =
     (Inl (TscppException ''eof'' []), [1, 7],
      \<lparr>content = [65, 66, 0, 1], gpos = 4, eofbit = True, failbit = True\<rparr>)"
  using InputArchive_truncated_payload [of
      "\<lparr>content = [65, 66, 0, 1], gpos = 0, eofbit = False, failbit = False\<rparr>"
      "\<lparr>type_name = [65, 66], sizeof = 2\<rparr>" "[1]" "[7, 7]" "[]"]
  by (simp add: good_def wf_type_def c_str_def)

section \<open>The compile-time tag\<close>



text \<open>
  Outside the hypothesis the signedness shows: for a type named \<open>Caf\<close> followed by the
  two bytes \<open>0xC3\<close>, \<open>0xA9\<close> (a small e with acute accent in UTF-8), the tag on a host
  where \<open>char\<close> is signed differs from the tag on a host where it is unsigned, which
  is the hash of the specification.
\<close>

lemma type_id_high_bytes:
  "type_id True (PRETTY_FUNCTION_PRE @ ''Caf'' @ [CHR 0xC3, CHR 0xA9] @ PRETTY_FUNCTION_POST) =
     Some 2993312599 \<and>
   type_id False (PRETTY_FUNCTION_PRE @ ''Caf'' @ [CHR 0xC3, CHR 0xA9] @ PRETTY_FUNCTION_POST) =
     Some 2425368373"
  by code_simp

end
